theory Spec2Isabelle
  imports Main
begin

section \<open>JavaScript strings\<close>

text \<open>
  A JavaScript string is modelled as an Isabelle \<^typ>\<open>string\<close>; each \<^typ>\<open>char\<close> is read as
  the code unit of that number (Latin-1 range). Code units above 255 are outside the model.
\<close>

definition isWhiteSpace :: "char \<Rightarrow> bool" where
  \<comment> \<open>the characters that \<^verbatim>\<open>\s\<close> and \<^verbatim>\<open>trim()\<close> treat as white space, below 256:
      TAB, LF, VT, FF, CR, SPACE, NBSP\<close>
  "isWhiteSpace c = ((of_char c :: nat) \<in> set [9, 10, 11, 12, 13, 32, 160])"

definition trim :: "string \<Rightarrow> string" where
  "trim s = rev (dropWhile isWhiteSpace (rev (dropWhile isWhiteSpace s)))"

definition toLowerChar :: "char \<Rightarrow> char" where
  \<comment> \<open>A-Z and the Latin-1 capitals (all of 192..222 but the multiplication sign 215)\<close>
  "toLowerChar c =
     (let n = (of_char c :: nat)
      in if (65 \<le> n \<and> n \<le> 90) \<or> (192 \<le> n \<and> n \<le> 222 \<and> n \<noteq> 215)
         then char_of (n + 32) else c)"

definition toLowerCase :: "string \<Rightarrow> string" where
  "toLowerCase s = map toLowerChar s"

definition charAt0 :: "string \<Rightarrow> string" where
  \<comment> \<open>\<^verbatim>\<open>s.charAt(0)\<close>: the empty string when \<^verbatim>\<open>s\<close> is empty\<close>
  "charAt0 s = take 1 s"

function splitWhiteSpace :: "string \<Rightarrow> string \<Rightarrow> string list" where
  \<comment> \<open>\<^verbatim>\<open>s.split(/\s+/)\<close>; the first argument is the piece being read, reversed.
      Every maximal run of white space is one separator, and the pieces on both sides
      of it are kept even when empty, so the result is never the empty list.\<close>
  "splitWhiteSpace cur [] = [rev cur]"
| "splitWhiteSpace cur (c # cs) =
     (if isWhiteSpace c then rev cur # splitWhiteSpace [] (dropWhile isWhiteSpace cs)
      else splitWhiteSpace (c # cur) cs)"
  by pat_completeness auto
termination
  by (relation "measure (\<lambda>(cur, s). length s)")
     (auto simp: le_imp_less_Suc length_dropWhile_le)

definition split :: "string \<Rightarrow> string list" where
  "split s = splitWhiteSpace [] s"

fun stripPrefix :: "string \<Rightarrow> string \<Rightarrow> string option" where
  "stripPrefix [] s = Some s"
| "stripPrefix (p # ps) [] = None"
| "stripPrefix (p # ps) (c # cs) = (if p = c then stripPrefix ps cs else None)"

definition cleanDomain :: "string \<Rightarrow> string" where
  \<comment> \<open>\<^verbatim>\<open>domain.replace(/^https?:\/\//, '').replace(/^www\./, '').replace(/\/$/, '')\<close>\<close>
  "cleanDomain domain =
     (let s1 = (case stripPrefix ''http://'' domain of Some r \<Rightarrow> r
                | None \<Rightarrow> (case stripPrefix ''https://'' domain of Some r \<Rightarrow> r | None \<Rightarrow> domain));
          s2 = (case stripPrefix ''www.'' s1 of Some r \<Rightarrow> r | None \<Rightarrow> s1)
      in if s2 \<noteq> [] \<and> last s2 = CHR ''/'' then butlast s2 else s2)"

definition digit :: "nat \<Rightarrow> char" where
  "digit n = char_of (48 + n)"

function numberToString :: "nat \<Rightarrow> string" where
  \<comment> \<open>the decimal text of a non-negative integer, as a template literal prints it\<close>
  "numberToString n = (if n < 10 then [digit n] else numberToString (n div 10) @ [digit (n mod 10)])"
  by pat_completeness auto
termination
  by (relation "measure id") auto

section \<open>Candidates and ranking (server/index.js)\<close>

record emailCandidate =
  email :: string
  confidence :: int

fun removeDuplicates :: "string set \<Rightarrow> emailCandidate list \<Rightarrow> emailCandidate list" where
  \<comment> \<open>the \<^verbatim>\<open>forEach\<close> over the sorted list: \<^verbatim>\<open>seenEmails\<close> is the first argument, the
      result is what is pushed onto \<^verbatim>\<open>uniqueEmailsWithConfidence\<close>, in order\<close>
  "removeDuplicates seenEmails [] = []"
| "removeDuplicates seenEmails (pattern # rest) =
     (if email pattern \<notin> seenEmails
      then \<lparr>email = email pattern, confidence = confidence pattern\<rparr>
             # removeDuplicates (insert (email pattern) seenEmails) rest
      else removeDuplicates seenEmails rest)"

definition sortByConfidence :: "'a emailCandidate_scheme list \<Rightarrow> 'a emailCandidate_scheme list" where
  \<comment> \<open>\<^verbatim>\<open>.sort((a, b) => b.confidence - a.confidence)\<close>: Array.prototype.sort is stable,
      and so is the insertion sort \<^const>\<open>sort_key\<close>\<close>
  "sortByConfidence xs = sort_key (\<lambda>c. - confidence c) xs"

definition uniqueEmailsWithConfidence :: "emailCandidate list \<Rightarrow> emailCandidate list" where
  \<comment> \<open>"Sort by confidence (highest first) and remove duplicates": index.js lines 107-123,
      and the same loop again at lines 155-166 and in processMultipleDomains\<close>
  "uniqueEmailsWithConfidence allEmailPatterns =
     removeDuplicates {} (sortByConfidence allEmailPatterns)"

definition candidate :: "string \<Rightarrow> string \<Rightarrow> int \<Rightarrow> emailCandidate" where
  \<comment> \<open>the object literal \<^verbatim>\<open>{ email: `${localPart}@${host}`, confidence: c }\<close>\<close>
  "candidate localPart host c = \<lparr>email = localPart @ ''@'' @ host, confidence = c\<rparr>"

definition personEmails :: "string \<Rightarrow> string \<Rightarrow> bool \<Rightarrow> nat \<Rightarrow> string \<Rightarrow> emailCandidate list" where
  \<comment> \<open>the body of \<^verbatim>\<open>names.forEach(fullName => ...)\<close>; \<^verbatim>\<open>domain\<close>, \<^verbatim>\<open>cleanDomain\<close> and
      \<^verbatim>\<open>useAdvancedEmails\<close> are the variables of permute that the closure reads, and
      \<^verbatim>\<open>random\<close> is the value of \<^verbatim>\<open>Math.floor(Math.random() * 100)\<close> for this name\<close>
  "personEmails domain cleanDom useAdvancedEmails random fullName =
     (let nameParts = split (trim fullName)
      in if length nameParts = 0 then []
         else
           let firstName = toLowerCase (hd nameParts);
               lastName = toLowerCase (last nameParts);
               firstInitial = charAt0 firstName;
               lastInitial = charAt0 lastName;
               highConfidence =
                 [candidate (firstName @ ''.'' @ lastName) cleanDom 95,
                  candidate firstName cleanDom 90,
                  candidate (firstName @ lastName) cleanDom 85,
                  candidate (firstInitial @ lastName) cleanDom 80,
                  candidate lastName cleanDom 75];
               mediumConfidence =
                 [candidate (firstName @ ''-'' @ lastName) domain 70,
                  candidate (firstName @ ''_'' @ lastName) domain 65,
                  candidate (firstInitial @ ''.'' @ lastName) domain 60,
                  candidate (firstInitial @ lastInitial) domain 55,
                  candidate (firstName @ firstInitial) domain 50];
               lowerConfidence =
                 [candidate (firstInitial @ ''-'' @ lastName) domain 45,
                  candidate (firstInitial @ ''_'' @ lastName) domain 40,
                  candidate (firstName @ lastInitial) domain 35,
                  candidate (lastName @ firstInitial) domain 30,
                  candidate (firstInitial @ ''.'' @ firstInitial) domain 25];
               advancedPatterns =
                 [candidate (firstName @ lastName @ firstInitial) domain 20,
                  candidate (lastName @ firstName) domain 15,
                  candidate (firstInitial @ lastName @ lastInitial) domain 10,
                  candidate (firstName @ lastName @ numberToString random) domain 5]
           in (if useAdvancedEmails then advancedPatterns else [])
                @ highConfidence @ mediumConfidence @ lowerConfidence)"

definition generateRankedEmails ::
    "string \<Rightarrow> string \<Rightarrow> bool \<Rightarrow> (nat \<Rightarrow> nat) \<Rightarrow> string list \<Rightarrow> emailCandidate list" where
  \<comment> \<open>\<^verbatim>\<open>random i\<close> is the number drawn for the name at position \<^verbatim>\<open>i\<close>\<close>
  "generateRankedEmails domain cleanDom useAdvancedEmails random names =
     uniqueEmailsWithConfidence
       (concat (map (\<lambda>(i, fullName). personEmails domain cleanDom useAdvancedEmails (random i) fullName)
                    (enumerate 0 names)))"

subsection \<open>permute\<close>

datatype jsonValue = JNull | JString string | JOther string
  \<comment> \<open>one value of the parsed webhook object: \<^verbatim>\<open>null\<close>, a string, or any other value,
      given by the text its \<^verbatim>\<open>toString()\<close> returns\<close>

fun nameOfValue :: "jsonValue \<Rightarrow> string option" where
  \<comment> \<open>\<^verbatim>\<open>.filter(name => name !== null && name !== 'null' && name.toString().trim() !== '')
      .map(name => name.toString())\<close>, for one value\<close>
  "nameOfValue JNull = None"
| "nameOfValue (JString s) = (if s \<noteq> ''null'' \<and> trim s \<noteq> [] then Some s else None)"
| "nameOfValue (JOther s) = (if trim s \<noteq> [] then Some s else None)"

datatype customNamesValue =
    NameArray "string list"
      \<comment> \<open>an array; each element is given by the text that \<^verbatim>\<open>`${name}`\<close> prints for it\<close>
  | NullValue
      \<comment> \<open>\<^verbatim>\<open>null\<close>: reading its \<^verbatim>\<open>length\<close> throws\<close>
  | OtherValue bool
      \<comment> \<open>any other value (a string, a number, a boolean, an object): the flag says whether
          \<^verbatim>\<open>value.length > 0\<close> holds; it has no function \<^verbatim>\<open>map\<close>\<close>

datatype jsError =
    SyntaxError string        \<comment> \<open>thrown by JSON.parse, with its message\<close>
  | TypeErrorNullLength       \<comment> \<open>"Cannot read properties of null (reading 'length')"\<close>
  | TypeErrorMapNotFunction   \<comment> \<open>"selectedCustomNames.map is not a function"\<close>

record permuteData =
  domain :: string
  usePersonalInfo :: bool
  useCustomNames :: bool
  selectedCustomNames :: customNamesValue
  useAdvancedEmails :: bool
  webhookResponse :: "jsonValue list option"

text \<open>
  \<^const>\<open>selectedCustomNames\<close> is the value the caller parsed from the request, whatever JSON
  value that is. \<^const>\<open>webhookResponse\<close> is \<^const>\<open>None\<close> for a null response. \<open>Some vs\<close> is a response whose
  \<^verbatim>\<open>output\<close> text parses (as it is, or inside its fenced json block) to an object with the
  values \<open>vs\<close>, in key order; an output that cannot be parsed, or that parses to
  \<^verbatim>\<open>null\<close>, leaves \<^verbatim>\<open>webhookNames\<close> empty and is \<open>Some []\<close>. The fields firstName, lastName,
  middleName, nickName, useNickName and domainsFromFile are destructured but never read.
\<close>

definition webhookNames :: "permuteData \<Rightarrow> string list" where
  "webhookNames data =
     (if \<not> usePersonalInfo data
      then (case webhookResponse data of None \<Rightarrow> [] | Some vs \<Rightarrow> List.map_filter nameOfValue vs)
      else [])"

fun customEmails :: "bool \<Rightarrow> string \<Rightarrow> customNamesValue \<Rightarrow> jsError + emailCandidate list" where
  \<comment> \<open>\<^verbatim>\<open>if (useCustomNames && selectedCustomNames.length > 0) { ... selectedCustomNames.map(...) }\<close>:
      what is pushed onto \<^verbatim>\<open>allEmails\<close>, or the TypeError thrown on the way\<close>
  "customEmails use cleanDom (NameArray names) =
     Inr (if use \<and> length names > 0 then map (\<lambda>name. candidate name cleanDom 95) names else [])"
| "customEmails use cleanDom NullValue =
     (if use then Inl TypeErrorNullLength else Inr [])"
| "customEmails use cleanDom (OtherValue positiveLength) =
     (if use \<and> positiveLength then Inl TypeErrorMapNotFunction else Inr [])"

definition permute :: "(nat \<Rightarrow> nat) \<Rightarrow> permuteData \<Rightarrow> jsError + emailCandidate list" where
  \<comment> \<open>\<^const>\<open>Inl\<close> is the error permute throws, \<^const>\<open>Inr\<close> the list it returns\<close>
  "permute random data =
     (let cleanDom = cleanDomain (domain data);
          names = webhookNames data;
          webhookEmails =
            (if length names > 0
             then generateRankedEmails (domain data) cleanDom (useAdvancedEmails data) random names
             else [])
      in case customEmails (useCustomNames data) cleanDom (selectedCustomNames data) of
           Inl thrown \<Rightarrow> Inl thrown
         | Inr custom \<Rightarrow> Inr (uniqueEmailsWithConfidence (webhookEmails @ custom)))"

section \<open>The multi-domain loop (processMultipleDomains)\<close>

text \<open>
  The model starts where the loop starts: its list of domains is \<^verbatim>\<open>uniqueDomains\<close>, after
  the function has merged, deduplicated and stripped the domains of the form and the file.
  What the Perplexity API answers is not the program's to decide: the loop takes a function
  \<open>fetch\<close> that gives, for the turn \<open>i\<close> and its domain, how the request ended. The
  timestamps written into the results are left out.
\<close>

datatype perplexity =
    Threw            \<comment> \<open>fetch, \<^verbatim>\<open>.json()\<close> or \<^verbatim>\<open>data.choices[0]\<close> throws: "Perplexity API error"\<close>
  | NotOk            \<comment> \<open>\<^verbatim>\<open>perplexityResponse.ok\<close> is false\<close>
  | NoContent        \<comment> \<open>the reply has no message content\<close>
  | Unparsable       \<comment> \<open>\<^verbatim>\<open>JSON.parse(cleanContent)\<close> throws\<close>
  | Parsed "jsonValue list"  \<comment> \<open>the values of the parsed reply\<close>

definition generateFallbackData :: "string \<Rightarrow> jsonValue list" where
  \<comment> \<open>the values of \<^verbatim>\<open>{ Founder: null, CEO: null, CTO: null, COO: null, note: `...` }\<close>\<close>
  "generateFallbackData dmn =
     [JNull, JNull, JNull, JNull,
      JString (''Fallback data generated for '' @ dmn @ '' due to API limitations'')]"

fun webhookOf :: "string \<Rightarrow> perplexity \<Rightarrow> jsonValue list option" where
  \<comment> \<open>the inner try/catch: what \<^verbatim>\<open>webhookResponse\<close> holds after it\<close>
  "webhookOf dmn Threw = Some (generateFallbackData dmn)"
| "webhookOf dmn NotOk = None"
| "webhookOf dmn NoContent = None"
| "webhookOf dmn Unparsable = Some (generateFallbackData dmn)"
| "webhookOf dmn (Parsed vs) = Some vs"

datatype customNamesField =
    Absent                   \<comment> \<open>no field, or the empty text: the expression gives \<^verbatim>\<open>[]\<close>\<close>
  | Invalid string           \<comment> \<open>text that JSON.parse rejects, with the SyntaxError's message\<close>
  | Valid customNamesValue   \<comment> \<open>text that is valid JSON, with the value it parses to\<close>

text \<open>
  \<^typ>\<open>customNamesField\<close> is what
  \<^verbatim>\<open>formData.selectedCustomNames ? JSON.parse(formData.selectedCustomNames) : []\<close> does.
\<close>

record requestBody =
  body_useCustomNames :: "string option"
  body_usePersonalInfo :: "string option"
  body_useAdvancedEmails :: "string option"
  body_selectedCustomNames :: customNamesField

datatype status = Completed | Error

record domainResult =
  result_domain :: string
  result_emails :: "emailCandidate list"
  result_webhookResponse :: "jsonValue list option"
  result_status :: status
  result_error :: "jsError option"   \<comment> \<open>the error whose message is stored\<close>

datatype event =
    Fetch string     \<comment> \<open>the request to the Perplexity API for a domain is awaited\<close>
  | SetTimeout nat   \<comment> \<open>\<^verbatim>\<open>await new Promise(resolve => setTimeout(resolve, ms))\<close>\<close>

record loopState =
  results :: "domainResult list"
  allCombinedEmails :: "emailCandidate list"
  events :: "event list"

definition processOne ::
    "requestBody \<Rightarrow> (nat \<Rightarrow> string \<Rightarrow> perplexity) \<Rightarrow> (nat \<Rightarrow> nat \<Rightarrow> nat) \<Rightarrow> nat \<Rightarrow> nat \<Rightarrow> string
       \<Rightarrow> loopState \<Rightarrow> loopState" where
  \<comment> \<open>one turn of the \<^verbatim>\<open>for\<close> loop: \<^verbatim>\<open>n\<close> is \<^verbatim>\<open>uniqueDomains.length\<close>, \<^verbatim>\<open>dmn\<close> is
      \<^verbatim>\<open>uniqueDomains[i]\<close>. The request is awaited first; then the \<^verbatim>\<open>data\<close> object is
      built, where \<^verbatim>\<open>JSON.parse(formData.selectedCustomNames)\<close> may throw, and permute is
      called, which may throw; an error thrown goes to the outer \<^verbatim>\<open>catch\<close> block.\<close>
  "processOne formData fetch random n i dmn st =
     (let response = webhookOf dmn (fetch i dmn);
          st1 = st\<lparr>events := events st @ [Fetch dmn]\<rparr>;
          attempt =
            (case body_selectedCustomNames formData of
               Invalid message \<Rightarrow> Inl (SyntaxError message)
             | parsed \<Rightarrow>
                 permute (random i)
                   \<lparr>domain = dmn,
                    usePersonalInfo = (body_usePersonalInfo formData = Some ''true''),
                    useCustomNames = (body_useCustomNames formData = Some ''true''),
                    selectedCustomNames = (case parsed of Valid v \<Rightarrow> v | _ \<Rightarrow> NameArray []),
                    useAdvancedEmails = (body_useAdvancedEmails formData = Some ''true''),
                    webhookResponse = response\<rparr>)
      in case attempt of
           Inl thrown \<Rightarrow>
             st1\<lparr>results := results st1 @
                   [\<lparr>result_domain = dmn, result_emails = [], result_webhookResponse = None,
                     result_status = Error, result_error = Some thrown\<rparr>]\<rparr>
         | Inr emails \<Rightarrow>
             st1\<lparr>results := results st1 @
                   [\<lparr>result_domain = dmn, result_emails = emails,
                     result_webhookResponse = response,
                     result_status = Completed, result_error = None\<rparr>],
                 allCombinedEmails := allCombinedEmails st1 @ emails,
                 events := events st1 @ (if int i < int n - 1 then [SetTimeout 1000] else [])\<rparr>)"

fun domainLoop ::
    "requestBody \<Rightarrow> (nat \<Rightarrow> string \<Rightarrow> perplexity) \<Rightarrow> (nat \<Rightarrow> nat \<Rightarrow> nat) \<Rightarrow> nat \<Rightarrow> nat \<Rightarrow> string list
       \<Rightarrow> loopState \<Rightarrow> loopState" where
  \<comment> \<open>\<^verbatim>\<open>for (let i = 0; i < uniqueDomains.length; i++)\<close>, on the domains from \<^verbatim>\<open>i\<close> on\<close>
  "domainLoop formData fetch random n i [] st = st"
| "domainLoop formData fetch random n i (dmn # rest) st =
     domainLoop formData fetch random n (Suc i) rest (processOne formData fetch random n i dmn st)"

record batchResult =
  domainResults :: "domainResult list"
  globalEmails :: "emailCandidate list"

definition processMultipleDomains ::
    "requestBody \<Rightarrow> (nat \<Rightarrow> string \<Rightarrow> perplexity) \<Rightarrow> (nat \<Rightarrow> nat \<Rightarrow> nat) \<Rightarrow> string list
       \<Rightarrow> batchResult \<times> event list" where
  \<comment> \<open>from the loop on (the list \<^verbatim>\<open>uniqueDomains\<close> is the last argument), with the
      events of the run beside the returned object\<close>
  "processMultipleDomains formData fetch random uniqueDomains =
     (let st = domainLoop formData fetch random (length uniqueDomains) 0 uniqueDomains
                 \<lparr>results = [], allCombinedEmails = [], events = []\<rparr>
      in (\<lparr>domainResults = results st,
           globalEmails = uniqueEmailsWithConfidence (allCombinedEmails st)\<rparr>,
          events st))"

section \<open>The session path (emailDiscoveryController)\<close>

datatype generationMethod = personal_info | nickname | custom_names | advanced_patterns

record discoveredEmail = emailCandidate +
  generationMethod :: generationMethod

record formData =
  firstName :: string
  lastName :: string
  nickName :: string
  middleName :: string
  customName :: string
  form_useNickName :: bool
  form_useCustomNames :: bool
  form_usePersonalInfo :: bool
  form_useAdvancedEmails :: bool
  form_selectedCustomNames :: "string list"

text \<open>
  A name field that is missing is the empty string here: the code only tests these
  fields for truthiness before it reads them, and both are falsy. A missing flag is
  \<^const>\<open>False\<close> and a missing list of custom names is \<open>[]\<close>.
\<close>

definition discovered :: "string \<Rightarrow> string \<Rightarrow> int \<Rightarrow> generationMethod \<Rightarrow> discoveredEmail" where
  "discovered localPart host c m =
     \<lparr>email = localPart @ ''@'' @ host, confidence = c, generationMethod = m\<rparr>"

fun findIndex :: "('a \<Rightarrow> bool) \<Rightarrow> 'a list \<Rightarrow> int" where
  \<comment> \<open>Array.prototype.findIndex: -1 when no element satisfies the test\<close>
  "findIndex P [] = -1"
| "findIndex P (x # xs) =
     (if P x then 0 else (let r = findIndex P xs in if r < 0 then -1 else r + 1))"

definition uniqueEmails :: "discoveredEmail list \<Rightarrow> discoveredEmail list" where
  \<comment> \<open>\<^verbatim>\<open>emails.filter((email, index, self) =>
        index === self.findIndex(e => e.email === email.email))\<close>\<close>
  "uniqueEmails emails =
     map snd (filter (\<lambda>(index, e). int index = findIndex (\<lambda>x. email x = email e) emails)
                     (enumerate 0 emails))"

definition pushedEmails :: "formData \<Rightarrow> string \<Rightarrow> discoveredEmail list" where
  \<comment> \<open>the array \<^verbatim>\<open>emails\<close> after all the pushes, before duplicates are removed\<close>
  "pushedEmails fd dmn =
     (let first = toLowerCase (firstName fd); lst = toLowerCase (lastName fd);
          hasFirst = (firstName fd \<noteq> []); hasLast = (lastName fd \<noteq> [])
      in (if form_usePersonalInfo fd then
               (if hasFirst \<and> hasLast then
                  [discovered (first @ ''.'' @ lst) dmn 85 personal_info,
                   discovered (first @ lst) dmn 80 personal_info,
                   discovered (take 1 first @ lst) dmn 75 personal_info,
                   discovered (first @ ''_'' @ lst) dmn 70 personal_info]
                else [])
               @ (if hasFirst then [discovered first dmn 60 personal_info] else [])
               @ (if hasLast then [discovered lst dmn 55 personal_info] else [])
               @ (if hasFirst \<and> middleName fd \<noteq> [] \<and> hasLast then
                    [discovered (first @ ''.'' @ toLowerCase (middleName fd) @ ''.'' @ lst) dmn 65
                       personal_info]
                  else [])
             else [])
            @ (if form_useNickName fd \<and> nickName fd \<noteq> [] then
                 [discovered (toLowerCase (nickName fd)) dmn 70 nickname]
                 @ (if hasLast then
                      [discovered (toLowerCase (nickName fd) @ ''.'' @ lst) dmn 65 nickname]
                    else [])
               else [])
            @ (if form_useCustomNames fd \<and> customName fd \<noteq> [] then
                 [discovered (toLowerCase (customName fd)) dmn 90 custom_names]
               else [])
            @ map (\<lambda>name. discovered (toLowerCase name) dmn 90 custom_names)
                  (form_selectedCustomNames fd)
            @ (if form_useAdvancedEmails fd then
                 (if hasFirst \<and> hasLast then
                    [discovered (first @ ''-'' @ lst) dmn 70 advanced_patterns,
                     discovered (first @ take 1 lst) dmn 65 advanced_patterns,
                     discovered (take 1 first @ ''.'' @ lst) dmn 75 advanced_patterns]
                  else [])
                 @ (if hasFirst then
                      [discovered (first @ ''1'') dmn 50 advanced_patterns,
                       discovered (first @ ''2'') dmn 45 advanced_patterns]
                    else [])
               else []))"

definition generateEmails :: "formData \<Rightarrow> string \<Rightarrow> discoveredEmail list" where
  \<comment> \<open>"Remove duplicates and sort by confidence"\<close>
  "generateEmails fd dmn = sortByConfidence (uniqueEmails (pushedEmails fd dmn))"

datatype configValue =
    Number int          \<comment> \<open>a JSON number that is an integer\<close>
  | NumericString int   \<comment> \<open>a JSON string that spells this integer, such as \<^verbatim>\<open>"0"\<close>\<close>

fun valueOf :: "configValue \<Rightarrow> int" where
  \<comment> \<open>the number that the validator reads and that the schema's Number type stores\<close>
  "valueOf (Number x) = x"
| "valueOf (NumericString x) = x"

record requestConfig =
  req_maxEmailsPerDomain :: "configValue option"
  req_confidenceThreshold :: "configValue option"

definition validateConfig :: "requestConfig \<Rightarrow> bool" where
  \<comment> \<open>validateStartDiscovery: \<^verbatim>\<open>.optional().isInt({ min: 1, max: 1000 })\<close> and
      \<^verbatim>\<open>.optional().isInt({ min: 0, max: 100 })\<close>; isInt reads the text of the value, so
      it accepts the number and the string alike\<close>
  "validateConfig config =
     ((case req_maxEmailsPerDomain config of
         None \<Rightarrow> True | Some m \<Rightarrow> 1 \<le> valueOf m \<and> valueOf m \<le> 1000) \<and>
      (case req_confidenceThreshold config of
         None \<Rightarrow> True | Some t \<Rightarrow> 0 \<le> valueOf t \<and> valueOf t \<le> 100))"

record sessionConfig =
  maxEmailsPerDomain :: int
  confidenceThreshold :: int

fun orDefault :: "configValue option \<Rightarrow> int \<Rightarrow> int" where
  \<comment> \<open>\<^verbatim>\<open>value || dflt\<close>, as the session stores it: a missing value and the number 0 are
      falsy; a string that is not empty is truthy, also \<^verbatim>\<open>"0"\<close>\<close>
  "orDefault None dflt = dflt"
| "orDefault (Some (Number x)) dflt = (if x = 0 then dflt else x)"
| "orDefault (Some (NumericString x)) dflt = x"

definition startDiscoveryConfig :: "requestConfig \<Rightarrow> sessionConfig" where
  "startDiscoveryConfig config =
     \<lparr>maxEmailsPerDomain = orDefault (req_maxEmailsPerDomain config) 100,
      confidenceThreshold = orDefault (req_confidenceThreshold config) 25\<rparr>"

definition slice0 :: "'a list \<Rightarrow> int \<Rightarrow> 'a list" where
  \<comment> \<open>\<^verbatim>\<open>xs.slice(0, end)\<close>: a negative \<^verbatim>\<open>end\<close> counts from the end of the array\<close>
  "slice0 xs e = (if e < 0 then take (nat (int (length xs) + e)) xs else take (nat e) xs)"

datatype sessionStatus =
  SessionPending | SessionProcessing | SessionCompleted | SessionFailed | SessionCancelled

datatype domainStatus = DomainPending | DomainProcessing | DomainCompleted | DomainError

record sessionDomain =
  sd_domain :: string
  sd_status :: domainStatus

record session =
  session_status :: sessionStatus
  session_domains :: "sessionDomain list"
  session_formData :: formData
  session_config :: sessionConfig

datatype httpError = NotFound | BadRequest string

record processed =
  inserted :: "discoveredEmail list"   \<comment> \<open>the documents given to insertMany (none when empty)\<close>
  emailsDiscovered :: nat
  returned :: "discoveredEmail list"   \<comment> \<open>the \<^verbatim>\<open>emails\<close> of the response\<close>

definition processDomain :: "session option \<Rightarrow> nat \<Rightarrow> httpError + processed" where
  \<comment> \<open>the first argument is what \<^verbatim>\<open>DiscoverySession.findOne\<close> found\<close>
  "processDomain found domainIndex =
     (case found of
        None \<Rightarrow> Inl NotFound
      | Some s \<Rightarrow>
          if session_status s \<noteq> SessionProcessing
          then Inl (BadRequest ''Session is not in processing state'')
          else if domainIndex \<ge> length (session_domains s)
          then Inl (BadRequest ''Invalid domain index'')
          else
            let d = session_domains s ! domainIndex
            in if sd_status d \<noteq> DomainPending
               then Inl (BadRequest ''Domain already processed or being processed'')
               else
                 let generatedEmails = generateEmails (session_formData s) (sd_domain d);
                     filteredEmails =
                       filter (\<lambda>e. confidence e \<ge> confidenceThreshold (session_config s))
                              generatedEmails;
                     limitedEmails = slice0 filteredEmails (maxEmailsPerDomain (session_config s))
                 in Inr \<lparr>inserted = limitedEmails,
                         emailsDiscovered = length limitedEmails,
                         returned = limitedEmails\<rparr>)"

section \<open>Ranking: sorted, duplicate-free, idempotent\<close>

lemma rebuilt_candidate: "\<lparr>email = email p, confidence = confidence p\<rparr> = (p::emailCandidate)"
  by simp

lemma removeDuplicates_subset: "set (removeDuplicates seen xs) \<subseteq> set xs"
  by (induction xs arbitrary: seen) auto

lemma removeDuplicates_unseen:
  "r \<in> set (removeDuplicates seen xs) \<Longrightarrow> email r \<notin> seen"
  by (induction xs arbitrary: seen) (auto split: if_splits)

lemma removeDuplicates_distinct: "distinct (map email (removeDuplicates seen xs))"
proof (induction xs arbitrary: seen)
  case Nil
  show ?case by simp
next
  case (Cons x xs)
  have "email x \<notin> email ` set (removeDuplicates (insert (email x) seen) xs)"
    using removeDuplicates_unseen by fastforce
  with Cons show ?case by simp
qed

lemma removeDuplicates_emails:
  "email ` set (removeDuplicates seen xs) = email ` set xs - seen"
  by (induction xs arbitrary: seen) auto

lemma removeDuplicates_sorted_wrt:
  "sorted_wrt P xs \<Longrightarrow> sorted_wrt P (removeDuplicates seen xs)"
proof (induction xs arbitrary: seen)
  case Nil
  show ?case by simp
next
  case (Cons x xs)
  have tl: "sorted_wrt P (removeDuplicates s xs)" for s
    using Cons by simp
  have "P x y" if "y \<in> set (removeDuplicates s xs)" for s y
    using that Cons.prems removeDuplicates_subset [of s xs] by auto
  with tl show ?case by (simp add: rebuilt_candidate)
qed

lemma removeDuplicates_fixed:
  "distinct (map email xs) \<Longrightarrow> email ` set xs \<inter> seen = {} \<Longrightarrow> removeDuplicates seen xs = xs"
  by (induction xs arbitrary: seen) auto

lemma sortByConfidence_sorted:
  "sorted_wrt (\<lambda>a b. confidence a \<ge> confidence b) (sortByConfidence xs)"
proof -
  have "sorted (map (\<lambda>c. - confidence c) (sortByConfidence xs))"
    by (simp add: sortByConfidence_def)
  then show ?thesis by (simp add: sorted_map)
qed

lemma set_sortByConfidence: "set (sortByConfidence xs) = set xs"
  by (simp add: sortByConfidence_def)

lemma sortByConfidence_fixed:
  "sorted_wrt (\<lambda>a b. confidence a \<ge> confidence b) xs \<Longrightarrow> sortByConfidence xs = xs"
  by (simp add: sortByConfidence_def sort_key_id_if_sorted sorted_map)

lemma ranked_distinct: "distinct (map email (uniqueEmailsWithConfidence xs))"
  by (simp add: uniqueEmailsWithConfidence_def removeDuplicates_distinct)

lemma ranked_sorted:
  "sorted_wrt (\<lambda>a b. confidence a \<ge> confidence b) (uniqueEmailsWithConfidence xs)"
  by (simp add: uniqueEmailsWithConfidence_def removeDuplicates_sorted_wrt sortByConfidence_sorted)

text \<open>
  C1. For the name "john doe" on example.com without the advanced patterns, the generator
  returns exactly the fifteen candidates of the catalog, in this order, with
  john.doe@example.com at confidence 95 first. The number drawn is not read.
\<close>

theorem catalog_john_doe:
  "generateRankedEmails ''example.com'' (cleanDomain ''example.com'') False random [''john doe'']
     = [\<lparr>email = ''john.doe@example.com'', confidence = 95\<rparr>,
        \<lparr>email = ''john@example.com'', confidence = 90\<rparr>,
        \<lparr>email = ''johndoe@example.com'', confidence = 85\<rparr>,
        \<lparr>email = ''jdoe@example.com'', confidence = 80\<rparr>,
        \<lparr>email = ''doe@example.com'', confidence = 75\<rparr>,
        \<lparr>email = ''john-doe@example.com'', confidence = 70\<rparr>,
        \<lparr>email = ''john_doe@example.com'', confidence = 65\<rparr>,
        \<lparr>email = ''j.doe@example.com'', confidence = 60\<rparr>,
        \<lparr>email = ''jd@example.com'', confidence = 55\<rparr>,
        \<lparr>email = ''johnj@example.com'', confidence = 50\<rparr>,
        \<lparr>email = ''j-doe@example.com'', confidence = 45\<rparr>,
        \<lparr>email = ''j_doe@example.com'', confidence = 40\<rparr>,
        \<lparr>email = ''johnd@example.com'', confidence = 35\<rparr>,
        \<lparr>email = ''doej@example.com'', confidence = 30\<rparr>,
        \<lparr>email = ''j.j@example.com'', confidence = 25\<rparr>]"
  by code_simp

text \<open>
  C2. Whatever the list of candidates, the ranked list holds no email twice, and every
  element's confidence is at least that of every later element (so of the next one).
\<close>

theorem ranked_distinct_descending:
  "distinct (map email (uniqueEmailsWithConfidence xs)) \<and>
   sorted_wrt (\<lambda>a b. confidence a \<ge> confidence b) (uniqueEmailsWithConfidence xs)"
  by (simp add: ranked_distinct ranked_sorted)

text \<open>
  C8. Ranking a ranked list changes nothing: the list is already sorted, so the stable sort
  returns it, and it holds no email twice, so the loop keeps every element.
\<close>

theorem ranked_idempotent:
  "uniqueEmailsWithConfidence (uniqueEmailsWithConfidence xs) = uniqueEmailsWithConfidence xs"
proof -
  let ?ys = "uniqueEmailsWithConfidence xs"
  have "sortByConfidence ?ys = ?ys"
    using ranked_sorted by (rule sortByConfidence_fixed)
  moreover have "removeDuplicates {} ?ys = ?ys"
    using ranked_distinct by (rule removeDuplicates_fixed) simp
  ultimately show ?thesis by (simp add: uniqueEmailsWithConfidence_def)
qed

section \<open>Duplicates: which occurrence is kept\<close>

lemma removeDuplicates_highest:
  "sorted_wrt (\<lambda>a b. confidence a \<ge> confidence b) xs \<Longrightarrow> r \<in> set (removeDuplicates seen xs)
     \<Longrightarrow> c \<in> set xs \<Longrightarrow> email c = email r \<Longrightarrow> confidence c \<le> confidence r"
proof (induction xs arbitrary: seen)
  case Nil
  then show ?case by simp
next
  case (Cons x xs)
  show ?case
  proof (cases "r = x \<and> email x \<notin> seen")
    case True
    with Cons.prems show ?thesis by auto
  next
    case False
    then obtain seen' where r: "r \<in> set (removeDuplicates seen' xs)" and x: "email x \<in> seen'"
      using Cons.prems(2) by (auto split: if_splits)
    then have "email r \<noteq> email x" using removeDuplicates_unseen by metis
    with Cons.prems have "c \<in> set xs" by auto
    with Cons r show ?thesis by auto
  qed
qed

text \<open>
  In the ranking of server/index.js (sort, then drop the emails already seen) the
  candidate kept for an email is one of the input, every email of the input is kept once,
  and no candidate of the input with that email has a higher confidence.
\<close>

lemma ranked_keeps_highest:
  "email ` set (uniqueEmailsWithConfidence xs) = email ` set xs"
  "r \<in> set (uniqueEmailsWithConfidence xs) \<Longrightarrow> r \<in> set xs"
  "r \<in> set (uniqueEmailsWithConfidence xs) \<Longrightarrow> c \<in> set xs \<Longrightarrow> email c = email r
     \<Longrightarrow> confidence c \<le> confidence r"
proof -
  show "email ` set (uniqueEmailsWithConfidence xs) = email ` set xs"
    by (simp add: uniqueEmailsWithConfidence_def removeDuplicates_emails set_sortByConfidence)
  show "r \<in> set (uniqueEmailsWithConfidence xs) \<Longrightarrow> r \<in> set xs"
    using removeDuplicates_subset [of "{}" "sortByConfidence xs"]
    by (auto simp: uniqueEmailsWithConfidence_def set_sortByConfidence)
  show "r \<in> set (uniqueEmailsWithConfidence xs) \<Longrightarrow> c \<in> set xs \<Longrightarrow> email c = email r
     \<Longrightarrow> confidence c \<le> confidence r"
    using removeDuplicates_highest [OF sortByConfidence_sorted, of r "{}" xs c]
    by (simp add: uniqueEmailsWithConfidence_def set_sortByConfidence)
qed

text \<open>
  C3. Of two candidates with the same email and different confidences, the one kept
  should be the higher. generateEmails of the session path removes duplicates before it
  sorts, so it keeps the candidate generated first: with the nickname equal to the first
  name, john@example.com is generated at 60 (personal info) and again at 70 (nickname), and
  the one returned has confidence 60.
\<close>

theorem generateEmails_keeps_first_generated:
  "pushedEmails
     \<lparr>firstName = ''John'', lastName = [], nickName = ''john'', middleName = [],
      customName = [], form_useNickName = True, form_useCustomNames = False,
      form_usePersonalInfo = True, form_useAdvancedEmails = False,
      form_selectedCustomNames = []\<rparr> ''example.com''
     = [\<lparr>email = ''john@example.com'', confidence = 60, generationMethod = personal_info\<rparr>,
        \<lparr>email = ''john@example.com'', confidence = 70, generationMethod = nickname\<rparr>] \<and>
   generateEmails
     \<lparr>firstName = ''John'', lastName = [], nickName = ''john'', middleName = [],
      customName = [], form_useNickName = True, form_useCustomNames = False,
      form_usePersonalInfo = True, form_useAdvancedEmails = False,
      form_selectedCustomNames = []\<rparr> ''example.com''
     = [\<lparr>email = ''john@example.com'', confidence = 60, generationMethod = personal_info\<rparr>]"
  by code_simp

section \<open>The shape of the addresses\<close>

text \<open>
  C5. Every candidate should be a lower-case local part joined with the cleaned domain.
  For the domain www.example.com, the name "John Doe" and the custom name "JDoe", the
  five patterns of the first tier and the custom name end in the cleaned example.com; the
  ten patterns of the other tiers end in the domain as given, and the custom name keeps
  its capitals.
\<close>

theorem permute_uncleaned_domain:
  "permute random
     \<lparr>domain = ''www.example.com'', usePersonalInfo = False, useCustomNames = True,
      selectedCustomNames = NameArray [''JDoe''], useAdvancedEmails = False,
      webhookResponse = Some [JString ''John Doe'']\<rparr>
     = Inr
       [\<lparr>email = ''john.doe@example.com'', confidence = 95\<rparr>,
        \<lparr>email = ''JDoe@example.com'', confidence = 95\<rparr>,
        \<lparr>email = ''john@example.com'', confidence = 90\<rparr>,
        \<lparr>email = ''johndoe@example.com'', confidence = 85\<rparr>,
        \<lparr>email = ''jdoe@example.com'', confidence = 80\<rparr>,
        \<lparr>email = ''doe@example.com'', confidence = 75\<rparr>,
        \<lparr>email = ''john-doe@www.example.com'', confidence = 70\<rparr>,
        \<lparr>email = ''john_doe@www.example.com'', confidence = 65\<rparr>,
        \<lparr>email = ''j.doe@www.example.com'', confidence = 60\<rparr>,
        \<lparr>email = ''jd@www.example.com'', confidence = 55\<rparr>,
        \<lparr>email = ''johnj@www.example.com'', confidence = 50\<rparr>,
        \<lparr>email = ''j-doe@www.example.com'', confidence = 45\<rparr>,
        \<lparr>email = ''j_doe@www.example.com'', confidence = 40\<rparr>,
        \<lparr>email = ''johnd@www.example.com'', confidence = 35\<rparr>,
        \<lparr>email = ''doej@www.example.com'', confidence = 30\<rparr>,
        \<lparr>email = ''j.j@www.example.com'', confidence = 25\<rparr>]"
  by code_simp

section \<open>Blank and partial names\<close>

lemma blank_value_dropped:
  "trim s = [] \<Longrightarrow>
   List.map_filter nameOfValue (vs @ JString s # ws) = List.map_filter nameOfValue (vs @ ws)"
  by (simp add: List.map_filter_def)

lemma webhookNames_blank:
  "trim s = [] \<Longrightarrow>
   webhookNames (data\<lparr>webhookResponse := Some (vs @ JString s # ws)\<rparr>) =
   webhookNames (data\<lparr>webhookResponse := Some (vs @ ws)\<rparr>)"
  by (simp add: webhookNames_def blank_value_dropped)

text \<open>
  C6. A name that is empty after trimming gives no candidate and is not an error. The
  generator is only ever called by permute, on the names left after permute has dropped
  the blank ones (with null and 'null') from the values of the webhook reply: the result
  of permute, a list or an error, is the one for the reply without that name.
\<close>

theorem blank_name_dropped:
  "trim s = [] \<Longrightarrow>
   permute random (data\<lparr>webhookResponse := Some (vs @ JString s # ws)\<rparr>) =
   permute random (data\<lparr>webhookResponse := Some (vs @ ws)\<rparr>)"
  unfolding permute_def by (simp add: webhookNames_blank Let_def split: sum.splits)

theorem blank_name_dropped_witness:
  "trim ''  '' = [] \<and>
   permute (\<lambda>i. 0)
     \<lparr>domain = ''example.com'', usePersonalInfo = False, useCustomNames = False,
      selectedCustomNames = NameArray [], useAdvancedEmails = False,
      webhookResponse = Some [JString ''John Doe'', JString ''  '']\<rparr> =
   permute (\<lambda>i. 0)
     \<lparr>domain = ''example.com'', usePersonalInfo = False, useCustomNames = False,
      selectedCustomNames = NameArray [], useAdvancedEmails = False,
      webhookResponse = Some [JString ''John Doe'']\<rparr>"
proof -
  have blank: "trim ''  '' = []"
    by (simp add: trim_def isWhiteSpace_def)
  show ?thesis
    using blank blank_name_dropped [OF blank, where random = "\<lambda>i. 0"
      and vs = "[JString ''John Doe'']" and ws = "[]"
      and data = "\<lparr>domain = ''example.com'', usePersonalInfo = False,
        useCustomNames = False, selectedCustomNames = NameArray [], useAdvancedEmails = False,
        webhookResponse = None\<rparr>"]
    by simp
qed

text \<open>
  C7, as stated: a name with a first name only gives the single candidate first@domain at
  confidence 60. The catalog generator takes the last piece of a one-word name as the last
  name too and emits the whole catalog; generateEmails adds two numbered addresses when the
  advanced patterns are on.
\<close>

theorem first_name_only_not_reduced:
  "generateRankedEmails ''example.com'' (cleanDomain ''example.com'') False (\<lambda>i. 0) [''john'']
     \<noteq> [\<lparr>email = ''john@example.com'', confidence = 60\<rparr>] \<and>
   generateEmails
     \<lparr>firstName = ''john'', lastName = [], nickName = [], middleName = [],
      customName = [], form_useNickName = False, form_useCustomNames = False,
      form_usePersonalInfo = True, form_useAdvancedEmails = True,
      form_selectedCustomNames = []\<rparr> ''example.com''
     = [\<lparr>email = ''john@example.com'', confidence = 60, generationMethod = personal_info\<rparr>,
        \<lparr>email = ''john1@example.com'', confidence = 50, generationMethod = advanced_patterns\<rparr>,
        \<lparr>email = ''john2@example.com'', confidence = 45, generationMethod = advanced_patterns\<rparr>]"
  by code_simp

text \<open>
  C7, amended: in generateEmails, with the personal-info option on and nothing coming from
  the nickname, the custom names or the advanced patterns, a form with a first name and no
  last name gives exactly the first name at the domain with confidence 60, and a form with
  a last name and no first name gives exactly the last name at the domain with
  confidence 55.
\<close>

theorem generateEmails_partial_name:
  assumes "form_usePersonalInfo fd"
    and "\<not> (form_useNickName fd \<and> nickName fd \<noteq> [])"
    and "\<not> (form_useCustomNames fd \<and> customName fd \<noteq> [])"
    and "form_selectedCustomNames fd = []"
    and "\<not> form_useAdvancedEmails fd"
  shows "(firstName fd \<noteq> [] \<and> lastName fd = [] \<longrightarrow>
           generateEmails fd dmn =
             [\<lparr>email = toLowerCase (firstName fd) @ ''@'' @ dmn, confidence = 60,
               generationMethod = personal_info\<rparr>]) \<and>
         (firstName fd = [] \<and> lastName fd \<noteq> [] \<longrightarrow>
           generateEmails fd dmn =
             [\<lparr>email = toLowerCase (lastName fd) @ ''@'' @ dmn, confidence = 55,
               generationMethod = personal_info\<rparr>])"
proof (intro conjI impI)
  assume only: "firstName fd \<noteq> [] \<and> lastName fd = []"
  show "generateEmails fd dmn =
             [\<lparr>email = toLowerCase (firstName fd) @ ''@'' @ dmn, confidence = 60,
               generationMethod = personal_info\<rparr>]"
    unfolding generateEmails_def pushedEmails_def
    by (simp add: Let_def uniqueEmails_def sortByConfidence_def discovered_def assms only)
next
  assume only: "firstName fd = [] \<and> lastName fd \<noteq> []"
  show "generateEmails fd dmn =
             [\<lparr>email = toLowerCase (lastName fd) @ ''@'' @ dmn, confidence = 55,
               generationMethod = personal_info\<rparr>]"
    unfolding generateEmails_def pushedEmails_def
    by (simp add: Let_def uniqueEmails_def sortByConfidence_def discovered_def assms only)
qed


theorem generateEmails_partial_name_witness:
  "form_usePersonalInfo
     \<lparr>firstName = ''john'', lastName = [], nickName = [], middleName = [],
      customName = [], form_useNickName = False, form_useCustomNames = False,
      form_usePersonalInfo = True, form_useAdvancedEmails = False,
      form_selectedCustomNames = []\<rparr> \<and>
   generateEmails
     \<lparr>firstName = ''john'', lastName = [], nickName = [], middleName = [],
      customName = [], form_useNickName = False, form_useCustomNames = False,
      form_usePersonalInfo = True, form_useAdvancedEmails = False,
      form_selectedCustomNames = []\<rparr> ''example.com''
     = [\<lparr>email = ''john@example.com'', confidence = 60, generationMethod = personal_info\<rparr>] \<and>
   generateEmails
     \<lparr>firstName = [], lastName = ''Doe'', nickName = [], middleName = [],
      customName = [], form_useNickName = False, form_useCustomNames = False,
      form_usePersonalInfo = True, form_useAdvancedEmails = False,
      form_selectedCustomNames = []\<rparr> ''example.com''
     = [\<lparr>email = ''doe@example.com'', confidence = 55, generationMethod = personal_info\<rparr>]"
proof -
  let ?first = "\<lparr>firstName = ''john'', lastName = [], nickName = [], middleName = [],
      customName = [], form_useNickName = False, form_useCustomNames = False,
      form_usePersonalInfo = True, form_useAdvancedEmails = False,
      form_selectedCustomNames = []\<rparr>"
  let ?last = "\<lparr>firstName = [], lastName = ''Doe'', nickName = [], middleName = [],
      customName = [], form_useNickName = False, form_useCustomNames = False,
      form_usePersonalInfo = True, form_useAdvancedEmails = False,
      form_selectedCustomNames = []\<rparr>"
  have lower: "toLowerCase ''john'' = ''john''" "toLowerCase ''Doe'' = ''doe''"
    by code_simp+
  have f1: "form_usePersonalInfo ?first" by simp
  have f2: "\<not> (form_useNickName ?first \<and> nickName ?first \<noteq> [])" by simp
  have f3: "\<not> (form_useCustomNames ?first \<and> customName ?first \<noteq> [])" by simp
  have f4: "form_selectedCustomNames ?first = []" by simp
  have f5: "\<not> form_useAdvancedEmails ?first" by simp
  have ff: "firstName ?first = ''john''" and fl: "lastName ?first = []" by simp_all
  from generateEmails_partial_name [OF f1 f2 f3 f4 f5, of "''example.com''"]
  have first: "generateEmails ?first ''example.com'' =
          [\<lparr>email = toLowerCase ''john'' @ ''@'' @ ''example.com'', confidence = 60,
            generationMethod = personal_info\<rparr>]"
    unfolding ff fl by blast
  have l1: "form_usePersonalInfo ?last" by simp
  have l2: "\<not> (form_useNickName ?last \<and> nickName ?last \<noteq> [])" by simp
  have l3: "\<not> (form_useCustomNames ?last \<and> customName ?last \<noteq> [])" by simp
  have l4: "form_selectedCustomNames ?last = []" by simp
  have l5: "\<not> form_useAdvancedEmails ?last" by simp
  have lf: "firstName ?last = []" and ll: "lastName ?last = ''Doe''" by simp_all
  from generateEmails_partial_name [OF l1 l2 l3 l4 l5, of "''example.com''"]
  have last: "generateEmails ?last ''example.com'' =
          [\<lparr>email = toLowerCase ''Doe'' @ ''@'' @ ''example.com'', confidence = 55,
            generationMethod = personal_info\<rparr>]"
    unfolding lf ll by blast
  from first last show ?thesis
    unfolding lower by (simp only: f1 append.simps simp_thms)
qed

section \<open>The multi-domain loop\<close>

lemma permute_thrown:
  "(case permute random data of Inl thrown \<Rightarrow> Some thrown | Inr emails \<Rightarrow> None) =
     (case selectedCustomNames data of
        NameArray ns \<Rightarrow> None
      | NullValue \<Rightarrow> if useCustomNames data then Some TypeErrorNullLength else None
      | OtherValue positiveLength \<Rightarrow>
          if useCustomNames data \<and> positiveLength then Some TypeErrorMapNotFunction else None)"
  by (simp add: permute_def Let_def split: customNamesValue.splits)

lemma attempt_thrown:
  "(case (case body_selectedCustomNames F of
            Invalid message \<Rightarrow> Inl (SyntaxError message)
          | parsed \<Rightarrow>
              permute random
                \<lparr>domain = d,
                 usePersonalInfo = (body_usePersonalInfo F = Some ''true''),
                 useCustomNames = (body_useCustomNames F = Some ''true''),
                 selectedCustomNames = (case parsed of Valid v \<Rightarrow> v | _ \<Rightarrow> NameArray []),
                 useAdvancedEmails = (body_useAdvancedEmails F = Some ''true''),
                 webhookResponse = response\<rparr>) of
      Inl thrown \<Rightarrow> Some thrown
    | Inr emails \<Rightarrow> None) =
     (case body_selectedCustomNames F of
        Absent \<Rightarrow> None
      | Invalid m \<Rightarrow> Some (SyntaxError m)
      | Valid (NameArray ns) \<Rightarrow> None
      | Valid NullValue \<Rightarrow>
          if body_useCustomNames F = Some ''true'' then Some TypeErrorNullLength else None
      | Valid (OtherValue positiveLength) \<Rightarrow>
          if body_useCustomNames F = Some ''true'' \<and> positiveLength
          then Some TypeErrorMapNotFunction else None)"
proof (cases "body_selectedCustomNames F")
  case Absent
  then show ?thesis by (simp add: permute_thrown)
next
  case (Invalid m)
  then show ?thesis by simp
next
  case (Valid v)
  then show ?thesis by (cases v) (simp_all add: permute_thrown)
qed





lemma processOne_events:
  "events (processOne F f r n i d st) =
     events st @ Fetch d #
       (case (case body_selectedCustomNames F of
                Absent \<Rightarrow> None
              | Invalid m \<Rightarrow> Some (SyntaxError m)
              | Valid (NameArray ns) \<Rightarrow> None
              | Valid NullValue \<Rightarrow>
                  if body_useCustomNames F = Some ''true'' then Some TypeErrorNullLength else None
              | Valid (OtherValue positiveLength) \<Rightarrow>
                  if body_useCustomNames F = Some ''true'' \<and> positiveLength
                  then Some TypeErrorMapNotFunction else None) of
          Some thrown \<Rightarrow> []
        | None \<Rightarrow> if int i < int n - 1 then [SetTimeout 1000] else [])"
  unfolding attempt_thrown [where F = F and random = "r i" and d = d
      and response = "webhookOf d (f i d)", symmetric]
  by (simp add: processOne_def Let_def split: sum.splits)





text \<open>
  The events of a run, whatever the replies: each domain's request in the order of the
  list, followed by the pause when that turn reaches the end of its \<^verbatim>\<open>try\<close> block and the
  domain is not the last.
\<close>

lemma domainLoop_events:
  "events (domainLoop F f r n i ds st) =
     events st @
     concat (map (\<lambda>(j, d). Fetch d #
                    (case (case body_selectedCustomNames F of
                             Absent \<Rightarrow> None
                           | Invalid m \<Rightarrow> Some (SyntaxError m)
                           | Valid (NameArray ns) \<Rightarrow> None
                           | Valid NullValue \<Rightarrow>
                               if body_useCustomNames F = Some ''true'' then Some TypeErrorNullLength else None
                           | Valid (OtherValue positiveLength) \<Rightarrow>
                               if body_useCustomNames F = Some ''true'' \<and> positiveLength
                               then Some TypeErrorMapNotFunction else None) of
                       Some thrown \<Rightarrow> []
                     | None \<Rightarrow> if int j < int n - 1 then [SetTimeout 1000] else []))
                 (enumerate i ds))"
  by (induction ds arbitrary: i st) (simp_all add: processOne_events)

lemma completed_run_events:
  "body_selectedCustomNames F = Valid (NameArray ns) \<or> body_selectedCustomNames F = Absent \<Longrightarrow>
   snd (processMultipleDomains F f r [d1, d2, d3]) =
     [Fetch d1, SetTimeout 1000, Fetch d2, SetTimeout 1000, Fetch d3]"
  by (auto simp: processMultipleDomains_def Let_def processOne_events)

text \<open>
  Selected custom names that are valid JSON but no array: with custom names in use,
  \<^verbatim>\<open>null\<close> and a string that is not empty make permute throw in every turn.
\<close>

lemma custom_names_no_array:
  "map result_error (domainResults (fst (processMultipleDomains
       \<lparr>body_useCustomNames = Some ''true'', body_usePersonalInfo = None,
        body_useAdvancedEmails = None, body_selectedCustomNames = Valid NullValue\<rparr>
       (\<lambda>i d. Parsed [JString ''John Doe'']) (\<lambda>i j. 0) [''good.com'', ''bad.com''])))
     = [Some TypeErrorNullLength, Some TypeErrorNullLength]"
  "map result_status (domainResults (fst (processMultipleDomains
       \<lparr>body_useCustomNames = Some ''true'', body_usePersonalInfo = None,
        body_useAdvancedEmails = None, body_selectedCustomNames = Valid (OtherValue True)\<rparr>
       (\<lambda>i d. Parsed [JString ''John Doe'']) (\<lambda>i j. 0) [''good.com'', ''bad.com''])))
     = [Error, Error]"
  "map result_status (domainResults (fst (processMultipleDomains
       \<lparr>body_useCustomNames = None, body_usePersonalInfo = None,
        body_useAdvancedEmails = None, body_selectedCustomNames = Valid NullValue\<rparr>
       (\<lambda>i d. Parsed [JString ''John Doe'']) (\<lambda>i j. 0) [''good.com'', ''bad.com''])))
     = [Completed, Completed]"
  by code_simp+



text \<open>
  C9. After every domain but the last the loop should wait 1000 ms before the next
  request. The wait stands at the end of the \<^verbatim>\<open>try\<close> block: a turn that ends in the
  \<^verbatim>\<open>catch\<close> block skips it. With selected custom names that are not valid JSON every turn
  throws after its request is made, and the three requests follow each other with no wait.
\<close>

theorem failed_turns_do_not_wait:
  "snd (processMultipleDomains
       \<lparr>body_useCustomNames = None, body_usePersonalInfo = None,
        body_useAdvancedEmails = None,
        body_selectedCustomNames = Invalid ''Unexpected end of JSON input''\<rparr>
       (\<lambda>i d. Parsed [JString ''John Doe''])
       (\<lambda>i j. 0) [''a.com'', ''b.com'', ''c.com''])
     = [Fetch ''a.com'', Fetch ''b.com'', Fetch ''c.com'']"
  by code_simp

section \<open>The session path: threshold and cap\<close>

lemma slice0_take: "0 \<le> e \<Longrightarrow> slice0 xs e = take (nat e) xs"
  by (simp add: slice0_def)

lemma startDiscoveryConfig_range:
  assumes "validateConfig config"
  shows "1 \<le> maxEmailsPerDomain (startDiscoveryConfig config) \<and>
     maxEmailsPerDomain (startDiscoveryConfig config) \<le> 1000 \<and>
     0 \<le> confidenceThreshold (startDiscoveryConfig config) \<and>
     confidenceThreshold (startDiscoveryConfig config) \<le> 100"
proof -
  have "1 \<le> orDefault v 100 \<and> orDefault v 100 \<le> 1000"
    if "case v of None \<Rightarrow> True | Some m \<Rightarrow> 1 \<le> valueOf m \<and> valueOf m \<le> 1000" for v
    using that by (cases "(v, 100::int)" rule: orDefault.cases) auto
  moreover have "0 \<le> orDefault v 25 \<and> orDefault v 25 \<le> 100"
    if "case v of None \<Rightarrow> True | Some t \<Rightarrow> 0 \<le> valueOf t \<and> valueOf t \<le> 100" for v
    using that by (cases "(v, 25::int)" rule: orDefault.cases) auto
  ultimately show ?thesis
    using assms by (simp add: validateConfig_def startDiscoveryConfig_def)
qed

text \<open>
  A threshold sent as the string "0" passes the validator and stays 0 in the session; sent
  as the number 0 it is replaced by 25.
\<close>

lemma threshold_zero:
  "startDiscoveryConfig \<lparr>req_maxEmailsPerDomain = None,
       req_confidenceThreshold = Some (NumericString 0)\<rparr> =
     \<lparr>maxEmailsPerDomain = 100, confidenceThreshold = 0\<rparr>"
  "startDiscoveryConfig \<lparr>req_maxEmailsPerDomain = None,
       req_confidenceThreshold = Some (Number 0)\<rparr> =
     \<lparr>maxEmailsPerDomain = 100, confidenceThreshold = 25\<rparr>"
  by (simp_all add: startDiscoveryConfig_def)

text \<open>
  C10. For every session, when processDomain succeeds the documents it stores and the
  emails it returns are the same list: the generated emails with a confidence of at least
  the session's threshold, cut by \<^verbatim>\<open>slice(0, maxEmailsPerDomain)\<close>. Every one of them
  reaches the threshold. When the cap is not negative, as in every session that
  startDiscovery creates (there it is between 1 and 1000), the cut keeps the first
  maxEmailsPerDomain of them, so there are at most that many. A request that names neither
  value gets the threshold 25 and the cap 100.
\<close>

theorem processDomain_threshold_cap:
  assumes "processDomain (Some s) i = Inr r"
  shows "returned r =
           slice0
             (filter (\<lambda>e. confidenceThreshold (session_config s) \<le> confidence e)
                (generateEmails (session_formData s) (sd_domain (session_domains s ! i))))
             (maxEmailsPerDomain (session_config s)) \<and>
         inserted r = returned r \<and>
         emailsDiscovered r = length (returned r) \<and>
         list_all (\<lambda>e. confidenceThreshold (session_config s) \<le> confidence e) (returned r) \<and>
         (0 \<le> maxEmailsPerDomain (session_config s) \<longrightarrow>
            returned r =
              take (nat (maxEmailsPerDomain (session_config s)))
                (filter (\<lambda>e. confidenceThreshold (session_config s) \<le> confidence e)
                   (generateEmails (session_formData s) (sd_domain (session_domains s ! i)))) \<and>
            int (length (returned r)) \<le> maxEmailsPerDomain (session_config s)) \<and>
         startDiscoveryConfig \<lparr>req_maxEmailsPerDomain = None, req_confidenceThreshold = None\<rparr> =
           \<lparr>maxEmailsPerDomain = 100, confidenceThreshold = 25\<rparr>"
proof -
  let ?kept = "filter (\<lambda>e. confidenceThreshold (session_config s) \<le> confidence e)
                (generateEmails (session_formData s) (sd_domain (session_domains s ! i)))"
  let ?lim = "slice0 ?kept (maxEmailsPerDomain (session_config s))"
  have r: "r = \<lparr>inserted = ?lim, emailsDiscovered = length ?lim, returned = ?lim\<rparr>"
    using assms by (simp add: processDomain_def Let_def split: if_splits)
  have dflt: "startDiscoveryConfig \<lparr>req_maxEmailsPerDomain = None, req_confidenceThreshold = None\<rparr> =
           \<lparr>maxEmailsPerDomain = 100, confidenceThreshold = 25\<rparr>"
    by (simp add: startDiscoveryConfig_def)
  have "set ?lim \<subseteq> set ?kept"
    by (auto simp: slice0_def dest: in_set_takeD)
  then have all: "list_all (\<lambda>e. confidenceThreshold (session_config s) \<le> confidence e) ?lim"
    by (auto simp: list_all_iff)
  have cut: "?lim = take (nat (maxEmailsPerDomain (session_config s))) ?kept \<and>
       int (length ?lim) \<le> maxEmailsPerDomain (session_config s)"
    if "0 \<le> maxEmailsPerDomain (session_config s)"
    using that by (simp add: slice0_take)
  have sel: "returned r = ?lim" "inserted r = ?lim" "emailsDiscovered r = length ?lim"
    by (simp_all add: r)
  show ?thesis
    unfolding sel using all cut dflt by blast
qed

theorem processDomain_threshold_cap_witness:
  "processDomain (Some
     \<lparr>session_status = SessionProcessing,
      session_domains = [\<lparr>sd_domain = ''example.com'', sd_status = DomainPending\<rparr>],
      session_formData =
        \<lparr>firstName = ''John'', lastName = ''Doe'', nickName = [], middleName = [],
         customName = [], form_useNickName = False, form_useCustomNames = False,
         form_usePersonalInfo = True, form_useAdvancedEmails = False,
         form_selectedCustomNames = []\<rparr>,
      session_config = \<lparr>maxEmailsPerDomain = 2, confidenceThreshold = 0\<rparr>\<rparr>) 0
     = Inr \<lparr>inserted =
             [\<lparr>email = ''john.doe@example.com'', confidence = 85,
               generationMethod = personal_info\<rparr>,
              \<lparr>email = ''johndoe@example.com'', confidence = 80,
               generationMethod = personal_info\<rparr>],
            emailsDiscovered = 2,
            returned =
             [\<lparr>email = ''john.doe@example.com'', confidence = 85,
               generationMethod = personal_info\<rparr>,
              \<lparr>email = ''johndoe@example.com'', confidence = 80,
               generationMethod = personal_info\<rparr>]\<rparr> \<and>
   (0::int) \<le> 2 \<and>
   int (length
     [\<lparr>email = ''john.doe@example.com'', confidence = 85, generationMethod = personal_info\<rparr>,
      \<lparr>email = ''johndoe@example.com'', confidence = 80, generationMethod = personal_info\<rparr>])
     \<le> 2"
proof -
  let ?s = "\<lparr>session_status = SessionProcessing,
      session_domains = [\<lparr>sd_domain = ''example.com'', sd_status = DomainPending\<rparr>],
      session_formData =
        \<lparr>firstName = ''John'', lastName = ''Doe'', nickName = [], middleName = [],
         customName = [], form_useNickName = False, form_useCustomNames = False,
         form_usePersonalInfo = True, form_useAdvancedEmails = False,
         form_selectedCustomNames = []\<rparr>,
      session_config = \<lparr>maxEmailsPerDomain = 2, confidenceThreshold = 0\<rparr>\<rparr>"
  let ?emails = "[\<lparr>email = ''john.doe@example.com'', confidence = 85,
               generationMethod = personal_info\<rparr>,
              \<lparr>email = ''johndoe@example.com'', confidence = 80,
               generationMethod = personal_info\<rparr>]"
  let ?r = "\<lparr>inserted = ?emails, emailsDiscovered = 2, returned = ?emails\<rparr>"
  have run: "processDomain (Some ?s) 0 = Inr ?r"
    by code_simp
  have cap: "0 \<le> maxEmailsPerDomain (session_config ?s)"
    by simp
  from processDomain_threshold_cap [OF run] cap
  have "int (length (returned ?r)) \<le> maxEmailsPerDomain (session_config ?s)"
    by blast
  then have "int (length ?emails) \<le> 2"
    by (simp only: processed.simps session.simps sessionConfig.simps)
  with run show ?thesis by simp
qed

end
